theory Spec2Isabelle
  imports Main "HOL-Library.AList"
begin

section \<open>The service worker of the PWA test application\<close>

text \<open>
  The service worker script registers listeners for the lifecycle events
  \<^verbatim>\<open>install\<close>, \<^verbatim>\<open>activate\<close>, \<^verbatim>\<open>fetch\<close> and \<^verbatim>\<open>message\<close>. Each listener is a chain of
  promises over two platform objects: the cache storage (\<^verbatim>\<open>caches\<close>) and the network
  (\<^verbatim>\<open>fetch\<close>). The listeners are embedded as functions on an explicit world (the cache
  storage and the trail of observable effects), with a rejected promise as a value
  \<open>Inl error\<close>. What the platform decides (whether a network request or a namespace
  deletion fails) is a parameter of the model, the record \<open>env\<close>; opening a cache,
  looking a request up, storing a response and listing the namespaces are taken to
  succeed. The listeners for push, notification click and background sync do not
  touch the cache storage and are left out.
\<close>

subsection \<open>Requests, responses and values\<close>

datatype response_type = Basic | Cors | Default | Error | Opaque | OpaqueRedirect

record response =
  status :: nat
  statusText :: string
  resp_type :: response_type
  body :: string

record request =
  req_method :: string
  req_url :: string
  req_destination :: string

datatype error = TypeError | NetworkFailure string | DeleteFailure string

text \<open>
  The data of a message event is any JavaScript value. Reading a property of
  \<^verbatim>\<open>undefined\<close> or \<^verbatim>\<open>null\<close> throws a TypeError; reading a property that a value does
  not have gives \<^verbatim>\<open>undefined\<close>.
\<close>

datatype js_value =
    JUndefined
  | JNull
  | JBool bool
  | JNum int
  | JStr string
  | JObj "(string \<times> js_value) list"

fun get_prop :: "js_value \<Rightarrow> string \<Rightarrow> error + js_value" where
  "get_prop JUndefined p = Inl TypeError"
| "get_prop JNull p = Inl TypeError"
| "get_prop (JObj props) p = Inr (case map_of props p of None \<Rightarrow> JUndefined | Some v \<Rightarrow> v)"
| "get_prop v p = Inr JUndefined"

fun truthy :: "js_value \<Rightarrow> bool" where
  "truthy JUndefined = False"
| "truthy JNull = False"
| "truthy (JBool b) = b"
| "truthy (JNum n) = (n \<noteq> 0)"
| "truthy (JStr s) = (s \<noteq> [])"
| "truthy (JObj props) = True"

subsection \<open>The world: cache storage and observable effects\<close>

text \<open>
  A cache maps the URL of a GET request to a stored response. The cache storage is
  the list of its namespaces in creation order: \<^verbatim>\<open>caches.match\<close> searches them in that
  order, and \<^verbatim>\<open>caches.keys\<close> lists them in that order.

  The console messages of the script are Japanese text; each message is a
  constructor of \<open>log_msg\<close>, with the interpolated value as its argument.
\<close>

type_synonym cache = "(string \<times> response) list"

type_synonym cache_storage = "(string \<times> cache) list"

datatype log_msg =
    LInstalling
  | LCacheOpening
  | LPrecacheDone
  | LCacheError error
  | LActivating
  | LDeleteOld string
  | LActivated
  | LFromCache string
  | LFromNetwork string
  | LCacheAdded string
  | LOffline string
  | LMessageReceived js_value
  | LSkipUpdate

datatype effect = Log log_msg | SkipWaiting | ClientsClaim | NetworkFetch string

record world =
  storage :: cache_storage
  trace :: "effect list"

record env =
  network :: "request \<Rightarrow> response option"
  delete_fails :: "string \<Rightarrow> bool"

subsection \<open>Promises\<close>

text \<open>
  A promise chain run to its end: the settled value (\<open>Inl\<close> rejected, \<open>Inr\<close>
  fulfilled) and the world it leaves. \<open>then_p\<close> is \<^verbatim>\<open>.then(f)\<close>, which a rejection
  skips; \<open>catch_p\<close> is \<^verbatim>\<open>.catch(h)\<close>, which a fulfilment skips.
\<close>

type_synonym 'a promise = "world \<Rightarrow> (error + 'a) \<times> world"

definition resolve :: "'a \<Rightarrow> 'a promise" where
  "resolve v w = (Inr v, w)"

definition reject :: "error \<Rightarrow> 'a promise" where
  "reject e w = (Inl e, w)"

definition then_p :: "'a promise \<Rightarrow> ('a \<Rightarrow> 'b promise) \<Rightarrow> 'b promise" where
  "then_p p f w = (case p w of (Inl e, w') \<Rightarrow> (Inl e, w') | (Inr v, w') \<Rightarrow> f v w')"

definition catch_p :: "'a promise \<Rightarrow> (error \<Rightarrow> 'a promise) \<Rightarrow> 'a promise" where
  "catch_p p h w = (case p w of (Inl e, w') \<Rightarrow> h e w' | (Inr v, w') \<Rightarrow> (Inr v, w'))"

definition emit :: "effect \<Rightarrow> unit promise" where
  "emit x w = (Inr (), w\<lparr>trace := trace w @ [x]\<rparr>)"

definition log :: "log_msg \<Rightarrow> unit promise" where
  "log m = emit (Log m)"

definition skipWaiting :: "unit promise" where
  "skipWaiting = emit SkipWaiting"

definition clients_claim :: "unit promise" where
  "clients_claim = emit ClientsClaim"

subsection \<open>The message listener\<close>

text \<open>
  \<^verbatim>\<open>
  self.addEventListener('message', (event) => {
    log(`... ${event.data.type}`);
    if (event.data && event.data.type === 'SKIP_WAITING') {
      log('...');
      self.skipWaiting();
    }
  });
  \<close>
  The first statement reads \<^verbatim>\<open>event.data.type\<close> before the guard of the second one.
\<close>

definition message_listener :: "js_value \<Rightarrow> unit promise" where
  "message_listener data w =
     (case get_prop data ''type'' of
        Inl e \<Rightarrow> (Inl e, w)
      | Inr t \<Rightarrow>
          then_p (log (LMessageReceived t)) (\<lambda>_.
            if \<not> truthy data then resolve ()
            else (case get_prop data ''type'' of
                    Inl e \<Rightarrow> reject e
                  | Inr t' \<Rightarrow>
                      if t' = JStr ''SKIP_WAITING''
                      then then_p (log LSkipUpdate) (\<lambda>_. skipWaiting)
                      else resolve ())) w)"

subsection \<open>Configuration\<close>

definition CACHE_NAME :: string where
  "CACHE_NAME = ''pwa-test-cache-v1''"

definition OFFLINE_URL :: string where
  "OFFLINE_URL = ''/offline.html''"

definition CACHE_RESOURCES :: "string list" where
  "CACHE_RESOURCES =
     [''/'', ''/index.html'', ''/manifest.json'', ''/offline.html'', ''/css/style.css'',
      ''/js/app.js'', ''/js/install.js'', ''/js/push.js'',
      ''/icons/icon-192x192.png'', ''/icons/icon-512x512.png'']"

subsection \<open>The cache storage of the platform\<close>

text \<open>
  A URL string given where a request is expected stands for the GET request of that
  URL. A cache only matches and stores GET requests. \<open>storage_match\<close> is
  \<^verbatim>\<open>caches.match\<close> of the cache storage: it asks every namespace, in creation order,
  and answers with the first entry found. \<open>namespace_match\<close> is \<^verbatim>\<open>match\<close> of the
  one cache with the given name.
\<close>

definition get_request :: "string \<Rightarrow> request" where
  "get_request u = \<lparr>req_method = ''GET'', req_url = u, req_destination = []\<rparr>"

definition cache_match :: "request \<Rightarrow> cache \<Rightarrow> response option" where
  "cache_match req c = (if req_method req \<noteq> ''GET'' then None else map_of c (req_url req))"

definition cache_put :: "request \<Rightarrow> response \<Rightarrow> cache \<Rightarrow> cache" where
  "cache_put req r c =
     (if req_method req \<noteq> ''GET'' then c else AList.update (req_url req) r c)"

fun storage_match :: "request \<Rightarrow> cache_storage \<Rightarrow> response option" where
  "storage_match req [] = None"
| "storage_match req ((name, c) # rest) =
     (case cache_match req c of Some r \<Rightarrow> Some r | None \<Rightarrow> storage_match req rest)"

definition namespace_match :: "string \<Rightarrow> request \<Rightarrow> cache_storage \<Rightarrow> response option" where
  "namespace_match name req st =
     (case map_of st name of None \<Rightarrow> None | Some c \<Rightarrow> cache_match req c)"

definition storage_open :: "string \<Rightarrow> cache_storage \<Rightarrow> cache_storage" where
  "storage_open name st = (if name \<in> set (map fst st) then st else st @ [(name, [])])"

definition update_namespace :: "string \<Rightarrow> (cache \<Rightarrow> cache) \<Rightarrow> cache_storage \<Rightarrow> cache_storage" where
  "update_namespace name f st = map (\<lambda>(n, c). if n = name then (n, f c) else (n, c)) st"

text \<open>
  The asynchronous operations. \<^verbatim>\<open>caches.open\<close> creates the namespace when it is
  absent and gives a handle on it (its name). \<^verbatim>\<open>caches.delete\<close> fulfils with whether
  the namespace existed, or rejects when the platform fails to delete it.
  \<^verbatim>\<open>fetch\<close> rejects when the network fails and otherwise fulfils with a response,
  whatever its status.
\<close>

definition caches_open :: "string \<Rightarrow> string promise" where
  "caches_open name w = (Inr name, w\<lparr>storage := storage_open name (storage w)\<rparr>)"

definition caches_keys :: "string list promise" where
  "caches_keys w = (Inr (map fst (storage w)), w)"

definition caches_delete :: "env \<Rightarrow> string \<Rightarrow> bool promise" where
  "caches_delete env name w =
     (if delete_fails env name then (Inl (DeleteFailure name), w)
      else (Inr (name \<in> set (map fst (storage w))),
            w\<lparr>storage := AList.delete name (storage w)\<rparr>))"

definition caches_match :: "request \<Rightarrow> response option promise" where
  "caches_match req w = (Inr (storage_match req (storage w)), w)"

definition cache_put_p :: "string \<Rightarrow> request \<Rightarrow> response \<Rightarrow> unit promise" where
  "cache_put_p name req r w =
     (Inr (), w\<lparr>storage := update_namespace name (cache_put req r) (storage w)\<rparr>)"

definition fetch :: "env \<Rightarrow> request \<Rightarrow> response promise" where
  "fetch env req w =
     (case network env req of
        None \<Rightarrow> Inl (NetworkFailure (req_url req))
      | Some r \<Rightarrow> Inr r,
      w\<lparr>trace := trace w @ [NetworkFetch (req_url req)]\<rparr>)"

text \<open>
  \<^verbatim>\<open>cache.addAll\<close> requests every URL and stores the responses in one step: when a
  request fails, or a response has a status outside 200..299 or the status 206, it
  rejects and stores nothing.
\<close>

definition fetch_ok :: "env \<Rightarrow> string \<Rightarrow> bool" where
  "fetch_ok env u =
     (case network env (get_request u) of
        None \<Rightarrow> False
      | Some r \<Rightarrow> 200 \<le> status r \<and> status r \<le> 299 \<and> status r \<noteq> 206)"

fun fetch_all :: "env \<Rightarrow> string list \<Rightarrow> error + (string \<times> response) list" where
  "fetch_all env [] = Inr []"
| "fetch_all env (u # us) =
     (case network env (get_request u) of
        None \<Rightarrow> Inl (NetworkFailure u)
      | Some r \<Rightarrow>
          if \<not> fetch_ok env u then Inl TypeError
          else (case fetch_all env us of
                  Inl e \<Rightarrow> Inl e
                | Inr rs \<Rightarrow> Inr ((u, r) # rs)))"

definition cache_addAll :: "env \<Rightarrow> string \<Rightarrow> string list \<Rightarrow> unit promise" where
  "cache_addAll env name urls w =
     (let w1 = w\<lparr>trace := trace w @ map NetworkFetch urls\<rparr> in
      case fetch_all env urls of
        Inl e \<Rightarrow> (Inl e, w1)
      | Inr rs \<Rightarrow>
          (Inr (),
           w1\<lparr>storage :=
                update_namespace name (fold (\<lambda>(u, r). AList.update u r) rs) (storage w1)\<rparr>))"

text \<open>
  \<^verbatim>\<open>Promise.all\<close> fulfils when every promise of the list does and rejects with the
  first rejection otherwise. A detached promise (started, neither returned nor
  awaited) has its effects; its value and its rejection are dropped.
\<close>

fun promise_all :: "(error + 'a) list \<Rightarrow> error + 'a list" where
  "promise_all [] = Inr []"
| "promise_all (Inl e # rs) = Inl e"
| "promise_all (Inr v # rs) =
     (case promise_all rs of Inl e \<Rightarrow> Inl e | Inr vs \<Rightarrow> Inr (v # vs))"

definition detach :: "'a promise \<Rightarrow> unit promise" where
  "detach p w = (Inr (), snd (p w))"

subsection \<open>The install listener\<close>

text \<open>
  \<^verbatim>\<open>
  event.waitUntil(
    caches.open(CACHE_NAME)
      .then((cache) => { log('...'); return cache.addAll(CACHE_RESOURCES); })
      .then(() => { log('...'); return self.skipWaiting(); })
      .catch((error) => { log(`...: ${error}`); })
  );
  \<close>
  The value of \<open>install_listener\<close> is the promise handed to \<^verbatim>\<open>waitUntil\<close>: the
  installation fails exactly when it is rejected.
\<close>

definition install_listener :: "env \<Rightarrow> unit promise" where
  "install_listener env =
     then_p (log LInstalling) (\<lambda>_.
       catch_p
         (then_p
            (then_p (caches_open CACHE_NAME) (\<lambda>c.
               then_p (log LCacheOpening) (\<lambda>_. cache_addAll env c CACHE_RESOURCES)))
            (\<lambda>_. then_p (log LPrecacheDone) (\<lambda>_. skipWaiting)))
         (\<lambda>error. log (LCacheError error)))"

subsection \<open>The activate listener\<close>

text \<open>
  \<^verbatim>\<open>
  event.waitUntil(
    caches.keys().then((cacheNames) => {
      const deletePromises = cacheNames
        .filter((cacheName) => cacheName !== CACHE_NAME)
        .map((cacheName) => { log(`...: ${cacheName}`); return caches.delete(cacheName); });
      return Promise.all(deletePromises);
    })
    .then(() => { log('...'); return self.clients.claim(); })
  );
  \<close>
  \<open>start_deletes\<close> is the \<^verbatim>\<open>map\<close>: every deletion is started, whatever the others do.
\<close>

fun start_deletes :: "env \<Rightarrow> string list \<Rightarrow> world \<Rightarrow> (error + bool) list \<times> world" where
  "start_deletes env [] w = ([], w)"
| "start_deletes env (cacheName # rest) w =
     (case then_p (log (LDeleteOld cacheName)) (\<lambda>_. caches_delete env cacheName) w of
        (r, w1) \<Rightarrow> (case start_deletes env rest w1 of (rs, w2) \<Rightarrow> (r # rs, w2)))"

definition activate_listener :: "env \<Rightarrow> unit promise" where
  "activate_listener env =
     then_p (log LActivating) (\<lambda>_.
       then_p
         (then_p caches_keys (\<lambda>cacheNames w.
            case start_deletes env
                   (filter (\<lambda>cacheName. cacheName \<noteq> CACHE_NAME) cacheNames) w of
              (deletePromises, w') \<Rightarrow> (promise_all deletePromises, w')))
         (\<lambda>_. then_p (log LActivated) (\<lambda>_. clients_claim)))"

subsection \<open>The fetch listener\<close>

text \<open>
  \<^verbatim>\<open>
  if (event.request.method !== 'GET') { return; }
  event.respondWith(
    caches.match(event.request)
      .then((cachedResponse) => {
        if (cachedResponse) { log(...); return cachedResponse; }
        log(...);
        return fetch(event.request).then((response) => {
          if (!response || response.status !== 200 || response.type !== 'basic') {
            return response;
          }
          const responseToCache = response.clone();
          caches.open(CACHE_NAME).then((cache) => {
            cache.put(event.request, responseToCache);
            log(...);
          });
          return response;
        });
      })
      .catch(() => {
        log(...);
        if (event.request.destination === 'document') { return caches.match(OFFLINE_URL); }
        return new Response('...', { status: 408, statusText: 'Offline' });
      })
  );
  \<close>
  The outcome is \<open>NotIntercepted\<close> when the listener returns without calling
  \<^verbatim>\<open>respondWith\<close>, and otherwise the settled value of the promise handed to
  \<^verbatim>\<open>respondWith\<close>: a response, or \<open>None\<close> for \<^verbatim>\<open>undefined\<close>. A fulfilled \<^verbatim>\<open>fetch\<close>
  always carries a response, so the test \<^verbatim>\<open>!response\<close> is never true. The write into
  the cache is detached; the world returned is the one after it has settled. The body
  of the substitute response is the UTF-8 text of the source.
\<close>

datatype fetch_outcome = NotIntercepted | RespondWith "error + response option"

definition offline_body :: string where
  "offline_body =
     map char_of [227, 130, 170, 227, 131, 149, 227, 131, 169, 227, 130, 164, 227, 131, 179 :: nat]"

definition offline_response :: response where
  "offline_response =
     \<lparr>status = 408, statusText = ''Offline'', resp_type = Default, body = offline_body\<rparr>"

definition fetch_listener :: "env \<Rightarrow> request \<Rightarrow> world \<Rightarrow> fetch_outcome \<times> world" where
  "fetch_listener env req w =
     (if req_method req \<noteq> ''GET'' then (NotIntercepted, w)
      else
        (case
           catch_p
             (then_p (caches_match req) (\<lambda>cachedResponse.
                case cachedResponse of
                  Some cached \<Rightarrow>
                    then_p (log (LFromCache (req_url req))) (\<lambda>_. resolve (Some cached))
                | None \<Rightarrow>
                    then_p (log (LFromNetwork (req_url req))) (\<lambda>_.
                    then_p (fetch env req) (\<lambda>response.
                      if status response \<noteq> 200 \<or> resp_type response \<noteq> Basic
                      then resolve (Some response)
                      else
                        then_p
                          (detach
                             (then_p (caches_open CACHE_NAME) (\<lambda>c.
                                then_p (cache_put_p c req response) (\<lambda>_.
                                  log (LCacheAdded (req_url req))))))
                          (\<lambda>_. resolve (Some response))))))
             (\<lambda>_.
                then_p (log (LOffline (req_url req))) (\<lambda>_.
                  if req_destination req = ''document''
                  then caches_match (get_request OFFLINE_URL)
                  else resolve (Some offline_response)))
             w
         of (r, w') \<Rightarrow> (RespondWith r, w')))"

subsection \<open>Abbreviations for the statements about activate\<close>

text \<open>
  The names that the filter of the activate listener keeps for deletion, and the world
  after the first log message of the listener.
\<close>

definition stale_names :: "world \<Rightarrow> string list" where
  "stale_names w = filter (\<lambda>cacheName. cacheName \<noteq> CACHE_NAME) (map fst (storage w))"

definition activating :: "world \<Rightarrow> world" where
  "activating w = w\<lparr>trace := trace w @ [Log LActivating]\<rparr>"

subsection \<open>Concrete scenarios\<close>

text \<open>
  Inputs on which the listeners are evaluated: a network that serves every URL, one
  that is down, one on which a single manifest path fails, a platform that fails to
  delete one namespace, and a few states of the cache storage.
\<close>

definition page :: "string \<Rightarrow> response" where
  "page u = \<lparr>status = 200, statusText = ''OK'', resp_type = Basic, body = u\<rparr>"

definition not_found :: response where
  "not_found = \<lparr>status = 404, statusText = ''Not Found'', resp_type = Basic, body = []\<rparr>"

definition env_online :: env where
  "env_online = \<lparr>network = (\<lambda>req. Some (page (req_url req))), delete_fails = (\<lambda>_. False)\<rparr>"

definition env_offline :: env where
  "env_offline = \<lparr>network = (\<lambda>_. None), delete_fails = (\<lambda>_. False)\<rparr>"

definition env_not_found :: env where
  "env_not_found = \<lparr>network = (\<lambda>_. Some not_found), delete_fails = (\<lambda>_. False)\<rparr>"

definition env_push_missing :: env where
  "env_push_missing =
     \<lparr>network = (\<lambda>req. if req_url req = ''/js/push.js'' then None else Some (page (req_url req))),
      delete_fails = (\<lambda>_. False)\<rparr>"

definition env_delete_fails :: env where
  "env_delete_fails =
     \<lparr>network = (\<lambda>_. None), delete_fails = (\<lambda>name. name = ''pwa-test-cache-v0'')\<rparr>"

definition w_empty :: world where
  "w_empty = \<lparr>storage = [], trace = []\<rparr>"

definition w_install_failed :: world where
  "w_install_failed = \<lparr>storage = [(CACHE_NAME, [])], trace = []\<rparr>"

definition w_precached :: world where
  "w_precached =
     \<lparr>storage = [(CACHE_NAME, map (\<lambda>u. (u, page u)) CACHE_RESOURCES)], trace = []\<rparr>"

definition w_stale :: world where
  "w_stale =
     \<lparr>storage =
        [(''pwa-test-cache-v0'', [(''/index.html'', page ''old'')]),
         (''other-cache'', []),
         (CACHE_NAME, [(''/index.html'', page ''new'')])],
      trace = []\<rparr>"

definition get_document :: "string \<Rightarrow> request" where
  "get_document u = \<lparr>req_method = ''GET'', req_url = u, req_destination = ''document''\<rparr>"

definition get_image :: "string \<Rightarrow> request" where
  "get_image u = \<lparr>req_method = ''GET'', req_url = u, req_destination = ''image''\<rparr>"

section \<open>Properties\<close>

lemmas promise_defs =
  then_p_def catch_p_def resolve_def reject_def emit_def log_def skipWaiting_def
  clients_claim_def detach_def

lemmas scenario_defs =
  page_def not_found_def env_online_def env_offline_def env_not_found_def
  env_push_missing_def env_delete_fails_def w_empty_def w_install_failed_def
  w_precached_def w_stale_def get_document_def get_image_def
  CACHE_NAME_def OFFLINE_URL_def CACHE_RESOURCES_def get_request_def

subsection \<open>The install listener\<close>

lemma fetch_all_fulfils:
  "fetch_all env us = Inr rs \<Longrightarrow> u \<in> set us \<Longrightarrow> fetch_ok env u"
  by (induction us arbitrary: rs) (auto split: option.splits if_splits sum.splits)

lemma fetch_all_rejects:
  "\<exists>u\<in>set us. \<not> fetch_ok env u \<Longrightarrow> \<exists>e. fetch_all env us = Inl e"
  by (cases "fetch_all env us") (auto dest: fetch_all_fulfils)

lemma install_listener_rejected_addAll:
  assumes "fetch_all env CACHE_RESOURCES = Inl e"
  shows "install_listener env w =
           (Inr (),
            w\<lparr>storage := storage_open CACHE_NAME (storage w),
              trace := trace w @ [Log LInstalling, Log LCacheOpening]
                         @ map NetworkFetch CACHE_RESOURCES @ [Log (LCacheError e)]\<rparr>)"
  using assms
  by (simp add: install_listener_def promise_defs caches_open_def cache_addAll_def)

lemma install_listener_fulfilled_addAll:
  assumes "fetch_all env CACHE_RESOURCES = Inr rs"
  shows "fst (install_listener env w) = Inr () \<and>
         trace (snd (install_listener env w)) =
           trace w @ [Log LInstalling, Log LCacheOpening]
             @ map NetworkFetch CACHE_RESOURCES @ [Log LPrecacheDone, SkipWaiting]"
  using assms
  by (simp add: install_listener_def promise_defs caches_open_def cache_addAll_def)

text \<open>
  Claim C1: when fetching a path of the resource manifest fails during
  pre-population, the install operation as a whole fails (the driver is told so) and
  no partially committed manifest cache is left behind.

  The second half holds: \<^verbatim>\<open>addAll\<close> stores nothing, so the storage is the one
  \<^verbatim>\<open>caches.open\<close> left (the namespace created when it was absent, every entry as
  it was). The first half does not: the \<^verbatim>\<open>.catch\<close> at the end of the chain logs the
  error and fulfils, so the promise given to \<^verbatim>\<open>waitUntil\<close> is fulfilled and the
  installation succeeds; only \<^verbatim>\<open>skipWaiting\<close> is left out. The theorem is the claim
  as the code has it: the failure is logged and swallowed, and nothing is stored.
\<close>

theorem install_manifest_failure_is_swallowed:
  assumes "\<exists>u\<in>set CACHE_RESOURCES. \<not> fetch_ok env u"
  shows "fst (install_listener env w) = Inr () \<and>
         storage (snd (install_listener env w)) = storage_open CACHE_NAME (storage w) \<and>
         (\<exists>e. trace (snd (install_listener env w)) =
                trace w @ [Log LInstalling, Log LCacheOpening]
                  @ map NetworkFetch CACHE_RESOURCES @ [Log (LCacheError e)])"
proof -
  from assms obtain e where "fetch_all env CACHE_RESOURCES = Inl e"
    using fetch_all_rejects by blast
  then show ?thesis
    by (simp add: install_listener_rejected_addAll)
qed

theorem install_manifest_failure_is_swallowed_witness:
  "\<not> fetch_ok env_push_missing ''/js/push.js'' \<and>
   fst (install_listener env_push_missing w_empty) = Inr () \<and>
   storage (snd (install_listener env_push_missing w_empty)) = [(CACHE_NAME, [])] \<and>
   SkipWaiting \<notin> set (trace (snd (install_listener env_push_missing w_empty)))"
proof -
  have h: "\<exists>u\<in>set CACHE_RESOURCES. \<not> fetch_ok env_push_missing u"
    by (simp add: CACHE_RESOURCES_def fetch_ok_def env_push_missing_def get_request_def)
  from install_manifest_failure_is_swallowed [OF h, of w_empty] show ?thesis
    by (auto simp: storage_open_def w_empty_def fetch_ok_def env_push_missing_def
        get_request_def CACHE_RESOURCES_def)
qed

text \<open>
  The claim as stated fails where the network is up except for one manifest path:
  the path is in the manifest, its request fails, and the install promise is
  fulfilled.
\<close>

theorem install_failure_reported_as_success:
  "''/js/push.js'' \<in> set CACHE_RESOURCES \<and>
   network env_push_missing (get_request ''/js/push.js'') = None \<and>
   fst (install_listener env_push_missing w_empty) = Inr ()"
  by (simp add: install_listener_def promise_defs caches_open_def cache_addAll_def
      fetch_ok_def scenario_defs)

subsection \<open>The fetch listener, branch by branch\<close>

lemma fetch_listener_not_get:
  "req_method req \<noteq> ''GET'' \<Longrightarrow> fetch_listener env req w = (NotIntercepted, w)"
  by (simp add: fetch_listener_def)

lemma fetch_listener_hit:
  assumes "req_method req = ''GET''" and "storage_match req (storage w) = Some r"
  shows "fetch_listener env req w =
           (RespondWith (Inr (Some r)), w\<lparr>trace := trace w @ [Log (LFromCache (req_url req))]\<rparr>)"
  using assms by (simp add: fetch_listener_def promise_defs caches_match_def)

lemma fetch_listener_not_cacheable:
  assumes "req_method req = ''GET''" and "storage_match req (storage w) = None"
    and "network env req = Some r" and "status r \<noteq> 200 \<or> resp_type r \<noteq> Basic"
  shows "fetch_listener env req w =
           (RespondWith (Inr (Some r)),
            w\<lparr>trace := trace w @ [Log (LFromNetwork (req_url req)), NetworkFetch (req_url req)]\<rparr>)"
  using assms by (auto simp: fetch_listener_def promise_defs caches_match_def fetch_def)

lemma fetch_listener_populates:
  assumes "req_method req = ''GET''" and "storage_match req (storage w) = None"
    and "network env req = Some r" and "status r = 200" and "resp_type r = Basic"
  shows "fetch_listener env req w =
           (RespondWith (Inr (Some r)),
            w\<lparr>storage := update_namespace CACHE_NAME (cache_put req r)
                           (storage_open CACHE_NAME (storage w)),
              trace := trace w @ [Log (LFromNetwork (req_url req)), NetworkFetch (req_url req),
                                  Log (LCacheAdded (req_url req))]\<rparr>)"
  using assms
  by (simp add: fetch_listener_def promise_defs caches_match_def fetch_def caches_open_def
      cache_put_p_def)

lemma fetch_listener_offline_document:
  assumes "req_method req = ''GET''" and "storage_match req (storage w) = None"
    and "network env req = None" and "req_destination req = ''document''"
  shows "fetch_listener env req w =
           (RespondWith (Inr (storage_match (get_request OFFLINE_URL) (storage w))),
            w\<lparr>trace := trace w @ [Log (LFromNetwork (req_url req)), NetworkFetch (req_url req),
                                  Log (LOffline (req_url req))]\<rparr>)"
  using assms by (simp add: fetch_listener_def promise_defs caches_match_def fetch_def)

lemma fetch_listener_offline_other:
  assumes "req_method req = ''GET''" and "storage_match req (storage w) = None"
    and "network env req = None" and "req_destination req \<noteq> ''document''"
  shows "fetch_listener env req w =
           (RespondWith (Inr (Some offline_response)),
            w\<lparr>trace := trace w @ [Log (LFromNetwork (req_url req)), NetworkFetch (req_url req),
                                  Log (LOffline (req_url req))]\<rparr>)"
  using assms by (simp add: fetch_listener_def promise_defs caches_match_def fetch_def)

lemma fetch_listener_undefined_only_without_offline_page:
  assumes "req_method req = ''GET''"
    and "fst (fetch_listener env req w) = RespondWith (Inr None)"
  shows "storage_match req (storage w) = None \<and> network env req = None \<and>
         req_destination req = ''document'' \<and>
         storage_match (get_request OFFLINE_URL) (storage w) = None"
proof (cases "storage_match req (storage w)")
  case (Some r)
  with assms show ?thesis
    by (simp add: fetch_listener_hit)
next
  case miss: None
  show ?thesis
  proof (cases "network env req")
    case (Some r)
    with assms miss show ?thesis
      by (cases "status r \<noteq> 200 \<or> resp_type r \<noteq> Basic")
         (simp_all add: fetch_listener_not_cacheable fetch_listener_populates)
  next
    case None
    with assms miss show ?thesis
      by (cases "req_destination req = ''document''")
         (simp_all add: fetch_listener_offline_document fetch_listener_offline_other)
  qed
qed

lemma fetch_listener_never_rejects:
  assumes "req_method req = ''GET''"
  shows "\<exists>v. fst (fetch_listener env req w) = RespondWith (Inr v)"
proof (cases "storage_match req (storage w)")
  case (Some r)
  with assms show ?thesis
    by (simp add: fetch_listener_hit)
next
  case miss: None
  show ?thesis
  proof (cases "network env req")
    case (Some r)
    with assms miss show ?thesis
      by (cases "status r \<noteq> 200 \<or> resp_type r \<noteq> Basic")
         (simp_all add: fetch_listener_not_cacheable fetch_listener_populates)
  next
    case None
    with assms miss show ?thesis
      by (cases "req_destination req = ''document''")
         (simp_all add: fetch_listener_offline_document fetch_listener_offline_other)
  qed
qed

subsection \<open>Lookups in the cache storage\<close>

lemma storage_match_append:
  "storage_match req (xs @ ys) =
     (case storage_match req xs of Some r \<Rightarrow> Some r | None \<Rightarrow> storage_match req ys)"
  by (induction xs) (auto split: option.splits)

lemma namespace_match_found:
  "namespace_match name req st = Some r \<Longrightarrow> \<exists>r'. storage_match req st = Some r'"
  by (induction st) (auto simp: namespace_match_def split: option.splits if_splits)

lemma namespace_match_first:
  "namespace_match name req st = Some r \<Longrightarrow>
   storage_match req (takeWhile (\<lambda>p. fst p \<noteq> name) st) = None \<Longrightarrow>
   storage_match req st = Some r"
  by (induction st) (auto simp: namespace_match_def split: option.splits if_splits)

lemma storage_match_open:
  "storage_match req (storage_open name st) = storage_match req st"
  by (simp add: storage_open_def storage_match_append cache_match_def split: option.splits)

lemma storage_open_has_name: "name \<in> fst ` set (storage_open name st)"
  by (auto simp: storage_open_def)

lemma cache_match_put:
  "req_method req = ''GET'' \<Longrightarrow> cache_match req (cache_put req r c) = Some r"
  by (simp add: cache_match_def cache_put_def update_conv')

lemma namespace_match_update:
  "req_method req = ''GET'' \<Longrightarrow> name \<in> fst ` set st \<Longrightarrow>
   namespace_match name req (update_namespace name (cache_put req r) st) = Some r"
  by (induction st) (auto simp: namespace_match_def update_namespace_def cache_match_put)

lemma storage_match_update:
  "req_method req = ''GET'' \<Longrightarrow> name \<in> fst ` set st \<Longrightarrow> storage_match req st = None \<Longrightarrow>
   storage_match req (update_namespace name (cache_put req r) st) = Some r"
proof (induction st)
  case Nil
  then show ?case by simp
next
  case (Cons p st)
  obtain n c where p: "p = (n, c)" by (cases p)
  from Cons.prems(3) have miss: "cache_match req c = None" and rest: "storage_match req st = None"
    by (auto simp: p split: option.splits)
  show ?case
  proof (cases "n = name")
    case True
    with Cons.prems(1) show ?thesis
      by (simp add: p update_namespace_def cache_match_put)
  next
    case False
    with Cons.prems have "name \<in> fst ` set st" by (auto simp: p)
    from Cons.IH [OF Cons.prems(1) this rest] False miss show ?thesis
      by (simp add: p update_namespace_def)
  qed
qed

text \<open>
  Claim C2: every intercepted GET fetch signal resolves to exactly one well-formed
  response (from cache, from network, or a substitute); in particular, when cache and
  network both fail and the offline page is itself absent from the cache, the handler
  still resolves to a generic failure response.

  The promise given to \<^verbatim>\<open>respondWith\<close> never rejects
  (\<open>fetch_listener_never_rejects\<close>), but in exactly the case the claim singles out
  (\<open>fetch_listener_undefined_only_without_offline_page\<close>) it resolves to
  \<^verbatim>\<open>undefined\<close>, the result of \<^verbatim>\<open>caches.match(OFFLINE_URL)\<close> on a storage without
  the offline page: no response at all, where the branch for the other destinations
  builds the 408 substitute. The second theorem evaluates the listener on the storage
  that a failed pre-population leaves.
\<close>

theorem fetch_offline_page_missing_resolves_undefined:
  assumes "req_method req = ''GET''" and "storage_match req (storage w) = None"
    and "network env req = None" and "req_destination req = ''document''"
    and "storage_match (get_request OFFLINE_URL) (storage w) = None"
  shows "fst (fetch_listener env req w) = RespondWith (Inr None)"
  using assms by (simp add: fetch_listener_offline_document)

theorem fetch_offline_page_missing_at_failed_install:
  "fst (fetch_listener env_offline (get_document ''/index.html'') w_install_failed) =
     RespondWith (Inr None)"
proof -
  have "fst (fetch_listener env_offline (get_document ''/index.html'') w_install_failed) =
          RespondWith (Inr None)"
    by (rule fetch_offline_page_missing_resolves_undefined)
       (simp_all add: cache_match_def scenario_defs)
  then show ?thesis .
qed

text \<open>
  Claim C3: for every GET fetch signal whose request identity has an entry in the
  current cache namespace, the handler returns that stored entry and the network is
  never invoked.

  The listener asks the whole cache storage (\<^verbatim>\<open>caches.match\<close>), not the current
  namespace. So a hit never reaches the network (the only effect is the log line),
  and the entry returned is the one of the first namespace, in creation order, that
  holds the identity: the current namespace's entry when no namespace created before
  it holds one.
\<close>

theorem fetch_cache_hit_skips_network:
  assumes "req_method req = ''GET''" and "namespace_match CACHE_NAME req (storage w) = Some r"
  shows "\<exists>r'. storage_match req (storage w) = Some r' \<and>
              fetch_listener env req w =
                (RespondWith (Inr (Some r')),
                 w\<lparr>trace := trace w @ [Log (LFromCache (req_url req))]\<rparr>) \<and>
              (storage_match req (takeWhile (\<lambda>p. fst p \<noteq> CACHE_NAME) (storage w)) = None
                 \<longrightarrow> r' = r)"
proof -
  from assms(2) obtain r' where r': "storage_match req (storage w) = Some r'"
    using namespace_match_found by blast
  show ?thesis
  proof (intro exI [of _ r'] conjI impI)
    show "storage_match req (storage w) = Some r'"
      by (rule r')
    show "fetch_listener env req w =
            (RespondWith (Inr (Some r')),
             w\<lparr>trace := trace w @ [Log (LFromCache (req_url req))]\<rparr>)"
      using assms(1) r' by (rule fetch_listener_hit)
    assume "storage_match req (takeWhile (\<lambda>p. fst p \<noteq> CACHE_NAME) (storage w)) = None"
    from namespace_match_first [OF assms(2) this] r' show "r' = r"
      by simp
  qed
qed

theorem fetch_cache_hit_skips_network_witness:
  "namespace_match CACHE_NAME (get_document ''/index.html'') (storage w_precached) =
     Some (page ''/index.html'') \<and>
   storage_match (get_document ''/index.html'')
     (takeWhile (\<lambda>p. fst p \<noteq> CACHE_NAME) (storage w_precached)) = None \<and>
   fetch_listener env_offline (get_document ''/index.html'') w_precached =
     (RespondWith (Inr (Some (page ''/index.html''))),
      w_precached\<lparr>trace := [Log (LFromCache ''/index.html'')]\<rparr>)"
proof -
  have h1: "req_method (get_document ''/index.html'') = ''GET''"
    by (simp add: get_document_def)
  have h2: "namespace_match CACHE_NAME (get_document ''/index.html'') (storage w_precached) =
              Some (page ''/index.html'')"
    by (simp add: namespace_match_def cache_match_def scenario_defs)
  have h3: "storage_match (get_document ''/index.html'')
              (takeWhile (\<lambda>p. fst p \<noteq> CACHE_NAME) (storage w_precached)) = None"
    by (simp add: w_precached_def)
  from fetch_cache_hit_skips_network [OF h1 h2, of env_offline] h2 h3 show ?thesis
    by (auto simp: get_document_def w_precached_def)
qed

text \<open>
  The claim as stated fails where an older namespace survives beside the current one
  (a deletion that failed during activate leaves such a storage): the current
  namespace holds an entry for the request, and the handler returns the older
  namespace's entry.
\<close>

theorem fetch_cache_hit_returns_older_namespace_entry:
  "namespace_match CACHE_NAME (get_document ''/index.html'') (storage w_stale) =
     Some (page ''new'') \<and>
   fst (fetch_listener env_online (get_document ''/index.html'') w_stale) =
     RespondWith (Inr (Some (page ''old''))) \<and>
   page ''old'' \<noteq> page ''new''"
  by (simp add: fetch_listener_def promise_defs caches_match_def namespace_match_def
      cache_match_def scenario_defs)

subsection \<open>The activate listener\<close>

lemma delete_as_filter: "AList.delete n xs = filter (\<lambda>p. fst p \<noteq> n) xs"
  by (induction xs) auto

lemma delete_step_fst:
  "fst (then_p (log (LDeleteOld n)) (\<lambda>_. caches_delete env n) w) =
     (if delete_fails env n then Inl (DeleteFailure n)
      else Inr (n \<in> set (map fst (storage w))))"
  by (simp add: promise_defs caches_delete_def)

lemma delete_step_snd:
  "snd (then_p (log (LDeleteOld n)) (\<lambda>_. caches_delete env n) w) =
     w\<lparr>storage := filter (\<lambda>p. fst p \<noteq> n \<or> delete_fails env n) (storage w),
       trace := trace w @ [Log (LDeleteOld n)]\<rparr>"
  by (simp add: promise_defs caches_delete_def delete_as_filter)

lemma start_deletes_Cons:
  "start_deletes env (n # ns) w =
     (fst (then_p (log (LDeleteOld n)) (\<lambda>_. caches_delete env n) w)
        # fst (start_deletes env ns
                (snd (then_p (log (LDeleteOld n)) (\<lambda>_. caches_delete env n) w))),
      snd (start_deletes env ns
             (snd (then_p (log (LDeleteOld n)) (\<lambda>_. caches_delete env n) w))))"
  by (simp split: prod.splits)

lemma start_deletes_world:
  "snd (start_deletes env ns w) =
     w\<lparr>storage := filter (\<lambda>p. fst p \<notin> set ns \<or> delete_fails env (fst p)) (storage w),
       trace := trace w @ map (\<lambda>n. Log (LDeleteOld n)) ns\<rparr>"
proof (induction ns arbitrary: w)
  case Nil
  then show ?case by simp
next
  case (Cons n ns)
  have "filter (\<lambda>p. fst p \<notin> set ns \<or> delete_fails env (fst p))
          (filter (\<lambda>p. fst p \<noteq> n \<or> delete_fails env n) (storage w)) =
        filter (\<lambda>p. fst p \<notin> set (n # ns) \<or> delete_fails env (fst p)) (storage w)"
    by (auto intro!: filter_cong)
  then show ?case
    by (simp only: start_deletes_Cons snd_conv Cons.IH delete_step_snd) simp
qed

lemma start_deletes_all_fulfil:
  "\<forall>n\<in>set ns. \<not> delete_fails env n \<Longrightarrow>
   \<exists>vs. promise_all (fst (start_deletes env ns w)) = Inr vs"
proof (induction ns arbitrary: w)
  case Nil
  then show ?case by simp
next
  case (Cons n ns)
  then obtain vs where
    "promise_all (fst (start_deletes env ns
        (snd (then_p (log (LDeleteOld n)) (\<lambda>_. caches_delete env n) w)))) = Inr vs"
    by fastforce
  with Cons.prems show ?case
    by (simp add: start_deletes_Cons delete_step_fst del: start_deletes.simps)
qed

lemma start_deletes_one_rejects:
  "\<exists>n\<in>set ns. delete_fails env n \<Longrightarrow>
   \<exists>e. promise_all (fst (start_deletes env ns w)) = Inl e"
proof (induction ns arbitrary: w)
  case Nil
  then show ?case by simp
next
  case (Cons n ns)
  show ?case
  proof (cases "delete_fails env n")
    case True
    then show ?thesis
      by (simp add: start_deletes_Cons delete_step_fst del: start_deletes.simps)
  next
    case False
    with Cons.prems have "\<exists>n\<in>set ns. delete_fails env n" by simp
    from Cons.IH [OF this] obtain e where
      "promise_all (fst (start_deletes env ns
          (snd (then_p (log (LDeleteOld n)) (\<lambda>_. caches_delete env n) w)))) = Inl e"
      by blast
    with False show ?thesis
      by (simp add: start_deletes_Cons delete_step_fst del: start_deletes.simps)
  qed
qed

lemma activate_listener_unfold:
  "activate_listener env w =
     (case promise_all (fst (start_deletes env (stale_names w) (activating w))) of
        Inl e \<Rightarrow> (Inl e, snd (start_deletes env (stale_names w) (activating w)))
      | Inr vs \<Rightarrow>
          (Inr (),
           (snd (start_deletes env (stale_names w) (activating w)))
             \<lparr>trace := trace (snd (start_deletes env (stale_names w) (activating w)))
                         @ [Log LActivated, ClientsClaim]\<rparr>))"
  by (simp add: activate_listener_def promise_defs caches_keys_def stale_names_def
      activating_def split: prod.splits sum.splits)

lemma activate_listener_storage:
  "storage (snd (activate_listener env w)) =
     filter (\<lambda>p. fst p = CACHE_NAME \<or> delete_fails env (fst p)) (storage w)"
proof -
  have "storage (snd (activate_listener env w)) =
          storage (snd (start_deletes env (stale_names w) (activating w)))"
    by (simp add: activate_listener_unfold split: sum.splits)
  also have "\<dots> = filter (\<lambda>p. fst p \<notin> set (stale_names w) \<or> delete_fails env (fst p))
                     (storage w)"
    by (simp add: start_deletes_world activating_def)
  also have "\<dots> = filter (\<lambda>p. fst p = CACHE_NAME \<or> delete_fails env (fst p)) (storage w)"
    by (rule filter_cong) (auto simp: stale_names_def)
  finally show ?thesis .
qed

lemma activate_listener_fulfilled_iff:
  "fst (activate_listener env w) = Inr () \<longleftrightarrow>
     (\<forall>n\<in>set (stale_names w). \<not> delete_fails env n)"
proof
  assume ok: "fst (activate_listener env w) = Inr ()"
  show "\<forall>n\<in>set (stale_names w). \<not> delete_fails env n"
  proof (rule ccontr)
    assume "\<not> (\<forall>n\<in>set (stale_names w). \<not> delete_fails env n)"
    then have "\<exists>n\<in>set (stale_names w). delete_fails env n" by blast
    from start_deletes_one_rejects [OF this, of "activating w"] ok show False
      by (auto simp: activate_listener_unfold)
  qed
next
  assume "\<forall>n\<in>set (stale_names w). \<not> delete_fails env n"
  from start_deletes_all_fulfil [OF this, of "activating w"]
  show "fst (activate_listener env w) = Inr ()"
    by (auto simp: activate_listener_unfold)
qed

text \<open>
  Claim C4: after the activate operation completes, the existing cache namespaces
  contain only the current version tag; every namespace with a different name has
  been deleted.

  When the promise of the activate listener is fulfilled, the storage is the old one
  restricted to the namespace named \<open>CACHE_NAME\<close>, contents untouched.
\<close>

theorem activate_leaves_only_current_namespace:
  assumes "fst (activate_listener env w) = Inr ()"
  shows "storage (snd (activate_listener env w)) =
           filter (\<lambda>p. fst p = CACHE_NAME) (storage w) \<and>
         set (map fst (storage (snd (activate_listener env w)))) \<subseteq> {CACHE_NAME}"
proof -
  from assms have ok: "\<forall>n\<in>set (stale_names w). \<not> delete_fails env n"
    by (simp add: activate_listener_fulfilled_iff)
  have "filter (\<lambda>p. fst p = CACHE_NAME \<or> delete_fails env (fst p)) (storage w) =
        filter (\<lambda>p. fst p = CACHE_NAME) (storage w)"
    using ok by (intro filter_cong) (auto simp: stale_names_def)
  then have "storage (snd (activate_listener env w)) =
               filter (\<lambda>p. fst p = CACHE_NAME) (storage w)"
    by (simp add: activate_listener_storage)
  then show ?thesis by auto
qed

theorem activate_leaves_only_current_namespace_witness:
  "fst (activate_listener env_online w_stale) = Inr () \<and>
   map fst (storage w_stale) = [''pwa-test-cache-v0'', ''other-cache'', CACHE_NAME] \<and>
   storage (snd (activate_listener env_online w_stale)) =
     [(CACHE_NAME, [(''/index.html'', page ''new'')])]"
proof -
  have h: "fst (activate_listener env_online w_stale) = Inr ()"
    by (simp add: activate_listener_fulfilled_iff stale_names_def scenario_defs)
  from activate_leaves_only_current_namespace [OF h] h show ?thesis
    by (simp add: w_stale_def CACHE_NAME_def)
qed

subsection \<open>Network failure and network responses in the fetch listener\<close>

text \<open>
  Claim C5: for every fetch signal whose identity is absent from the cache, whose
  network call fails, and whose destination is a full-page navigation (document), the
  handler resolves to the stored /offline.html entry.

  A fetch signal with a request identity is a retrieval (GET) request; the listener
  passes every other method through untouched. On the path of a cache miss and a
  failed network call, a document request resolves to the entry that the cache storage
  holds for \<open>OFFLINE_URL\<close>.
\<close>

theorem fetch_offline_fallback_for_get_document:
  assumes "req_method req = ''GET''" and "storage_match req (storage w) = None"
    and "network env req = None" and "req_destination req = ''document''"
    and "storage_match (get_request OFFLINE_URL) (storage w) = Some offline_page"
  shows "fst (fetch_listener env req w) = RespondWith (Inr (Some offline_page))"
  using assms by (simp add: fetch_listener_offline_document)

theorem fetch_offline_fallback_for_get_document_witness:
  "req_method (get_document ''/news.html'') = ''GET'' \<and>
   storage_match (get_document ''/news.html'') (storage w_precached) = None \<and>
   network env_offline (get_document ''/news.html'') = None \<and>
   req_destination (get_document ''/news.html'') = ''document'' \<and>
   storage_match (get_request OFFLINE_URL) (storage w_precached) = Some (page ''/offline.html'') \<and>
   fst (fetch_listener env_offline (get_document ''/news.html'') w_precached) =
     RespondWith (Inr (Some (page ''/offline.html'')))"
proof -
  have h1: "req_method (get_document ''/news.html'') = ''GET''"
    and h4: "req_destination (get_document ''/news.html'') = ''document''"
    by (simp_all add: get_document_def)
  have h2: "storage_match (get_document ''/news.html'') (storage w_precached) = None"
    by (simp add: cache_match_def scenario_defs)
  have h3: "network env_offline (get_document ''/news.html'') = None"
    by (simp add: env_offline_def)
  have h5: "storage_match (get_request OFFLINE_URL) (storage w_precached) =
              Some (page ''/offline.html'')"
    by (simp add: cache_match_def scenario_defs)
  from fetch_offline_fallback_for_get_document [OF h1 h2 h3 h4 h5] h1 h2 h3 h4 h5
  show ?thesis by simp
qed

text \<open>
  Claim C6: for every non-navigational fetch signal whose identity is absent from
  the cache and whose network call fails, the handler resolves to a synthetic
  response with status 408 rather than raising an error or an unhandled rejection.

  On the same path, a request with any other destination has the promise given to
  \<^verbatim>\<open>respondWith\<close> fulfilled with the substitute response, whose status is 408.
\<close>

theorem fetch_offline_substitute_for_get_resource:
  assumes "req_method req = ''GET''" and "storage_match req (storage w) = None"
    and "network env req = None" and "req_destination req \<noteq> ''document''"
  shows "fst (fetch_listener env req w) = RespondWith (Inr (Some offline_response)) \<and>
         status offline_response = 408"
  using assms by (simp add: fetch_listener_offline_other offline_response_def)

theorem fetch_offline_substitute_for_get_resource_witness:
  "req_method (get_image ''/photo.png'') = ''GET'' \<and>
   storage_match (get_image ''/photo.png'') (storage w_precached) = None \<and>
   network env_offline (get_image ''/photo.png'') = None \<and>
   req_destination (get_image ''/photo.png'') \<noteq> ''document'' \<and>
   fst (fetch_listener env_offline (get_image ''/photo.png'') w_precached) =
     RespondWith (Inr (Some offline_response))"
proof -
  have h1: "req_method (get_image ''/photo.png'') = ''GET''"
    and h4: "req_destination (get_image ''/photo.png'') \<noteq> ''document''"
    by (simp_all add: get_image_def)
  have h2: "storage_match (get_image ''/photo.png'') (storage w_precached) = None"
    by (simp add: cache_match_def scenario_defs)
  have h3: "network env_offline (get_image ''/photo.png'') = None"
    by (simp add: env_offline_def)
  from fetch_offline_substitute_for_get_resource [OF h1 h2 h3 h4] h1 h2 h3 h4
  show ?thesis by simp
qed

text \<open>
  Claim C7: for every GET fetch signal that misses the cache and receives a network
  response with a status other than 200 or a type other than basic, that response is
  returned to the caller and no new cache entry is created.
\<close>

theorem fetch_bad_response_not_cached:
  assumes "req_method req = ''GET''" and "storage_match req (storage w) = None"
    and "network env req = Some r" and "status r \<noteq> 200 \<or> resp_type r \<noteq> Basic"
  shows "fst (fetch_listener env req w) = RespondWith (Inr (Some r)) \<and>
         storage (snd (fetch_listener env req w)) = storage w"
  using assms by (simp add: fetch_listener_not_cacheable)

theorem fetch_bad_response_not_cached_witness:
  "req_method (get_image ''/photo.png'') = ''GET'' \<and>
   storage_match (get_image ''/photo.png'') (storage w_precached) = None \<and>
   network env_not_found (get_image ''/photo.png'') = Some not_found \<and>
   status not_found = 404 \<and>
   fst (fetch_listener env_not_found (get_image ''/photo.png'') w_precached) =
     RespondWith (Inr (Some not_found)) \<and>
   storage (snd (fetch_listener env_not_found (get_image ''/photo.png'') w_precached)) =
     storage w_precached"
proof -
  have h1: "req_method (get_image ''/photo.png'') = ''GET''"
    by (simp add: get_image_def)
  have h2: "storage_match (get_image ''/photo.png'') (storage w_precached) = None"
    by (simp add: cache_match_def scenario_defs)
  have h3: "network env_not_found (get_image ''/photo.png'') = Some not_found"
    by (simp add: env_not_found_def)
  have h4: "status not_found \<noteq> 200 \<or> resp_type not_found \<noteq> Basic"
    by (simp add: not_found_def)
  have h5: "status not_found = 404"
    by (simp add: not_found_def)
  from fetch_bad_response_not_cached [OF h1 h2 h3 h4] h1 h2 h3 h5
  show ?thesis by simp
qed

text \<open>
  Claim C8: for every GET fetch signal with no existing cache entry whose network
  call succeeds with a basic response of status 200, that response is returned to the
  caller, and a later lookup of the same request in the current namespace returns a
  stored entry with matching status.

  The stored entry is the response itself, so its status matches; the lookup over the
  whole storage, which is the one the listener performs, finds it too.
\<close>

theorem fetch_miss_populates_cache:
  assumes "req_method req = ''GET''" and "storage_match req (storage w) = None"
    and "network env req = Some r" and "status r = 200" and "resp_type r = Basic"
  shows "fst (fetch_listener env req w) = RespondWith (Inr (Some r)) \<and>
         namespace_match CACHE_NAME req (storage (snd (fetch_listener env req w))) = Some r \<and>
         storage_match req (storage (snd (fetch_listener env req w))) = Some r"
proof -
  have "storage_match req (storage_open CACHE_NAME (storage w)) = None"
    using assms(2) by (simp add: storage_match_open)
  then show ?thesis
    using assms
    by (simp add: fetch_listener_populates namespace_match_update storage_match_update
        storage_open_has_name)
qed

theorem fetch_miss_populates_cache_witness:
  "req_method (get_image ''/photo.png'') = ''GET'' \<and>
   storage_match (get_image ''/photo.png'') (storage w_precached) = None \<and>
   network env_online (get_image ''/photo.png'') = Some (page ''/photo.png'') \<and>
   status (page ''/photo.png'') = 200 \<and>
   resp_type (page ''/photo.png'') = Basic \<and>
   fst (fetch_listener env_online (get_image ''/photo.png'') w_precached) =
     RespondWith (Inr (Some (page ''/photo.png''))) \<and>
   namespace_match CACHE_NAME (get_image ''/photo.png'')
     (storage (snd (fetch_listener env_online (get_image ''/photo.png'') w_precached))) =
     Some (page ''/photo.png'')"
proof -
  have h1: "req_method (get_image ''/photo.png'') = ''GET''"
    by (simp add: get_image_def)
  have h2: "storage_match (get_image ''/photo.png'') (storage w_precached) = None"
    by (simp add: cache_match_def scenario_defs)
  have h3: "network env_online (get_image ''/photo.png'') = Some (page ''/photo.png'')"
    by (simp add: env_online_def get_image_def)
  have h4: "status (page ''/photo.png'') = 200"
    and h5: "resp_type (page ''/photo.png'') = Basic"
    by (simp_all add: page_def)
  from fetch_miss_populates_cache [OF h1 h2 h3 h4 h5] h1 h2 h3 h4 h5
  show ?thesis by simp
qed

subsection \<open>A deletion that fails during activate\<close>

text \<open>
  Claim C9: during the activate operation, the failure of one namespace deletion is
  logged and does not abort the remaining deletions or the activate operation itself.

  Every deletion is started before \<^verbatim>\<open>Promise.all\<close> is asked, so the other stale
  namespaces are deleted all the same. But the chain has no rejection handler: the
  promise given to \<^verbatim>\<open>waitUntil\<close> is rejected, the listener logs nothing about the
  failure, and the last step (the completion message and \<^verbatim>\<open>clients.claim\<close>) is
  skipped: the trace ends with the deletion messages.
\<close>

theorem activate_delete_failure_rejects:
  assumes "n \<in> set (map fst (storage w))" and "n \<noteq> CACHE_NAME" and "delete_fails env n"
  shows "(\<exists>e. fst (activate_listener env w) = Inl e) \<and>
         storage (snd (activate_listener env w)) =
           filter (\<lambda>p. fst p = CACHE_NAME \<or> delete_fails env (fst p)) (storage w) \<and>
         trace (snd (activate_listener env w)) =
           trace w @ Log LActivating
             # map (\<lambda>n. Log (LDeleteOld n))
                 (filter (\<lambda>cacheName. cacheName \<noteq> CACHE_NAME) (map fst (storage w)))"
proof -
  from assms have "\<exists>n\<in>set (stale_names w). delete_fails env n"
    by (auto simp: stale_names_def)
  from start_deletes_one_rejects [OF this, of "activating w"]
  obtain e where e: "promise_all (fst (start_deletes env (stale_names w) (activating w))) = Inl e"
    by blast
  then have "fst (activate_listener env w) = Inl e"
    and "trace (snd (activate_listener env w)) =
           trace w @ Log LActivating # map (\<lambda>n. Log (LDeleteOld n)) (stale_names w)"
    by (simp_all add: activate_listener_unfold start_deletes_world activating_def)
  then show ?thesis
    by (simp add: activate_listener_storage stale_names_def)
qed

theorem activate_delete_failure_rejects_witness:
  "''pwa-test-cache-v0'' \<in> set (map fst (storage w_stale)) \<and>
   ''pwa-test-cache-v0'' \<noteq> CACHE_NAME \<and>
   delete_fails env_delete_fails ''pwa-test-cache-v0'' \<and>
   fst (activate_listener env_delete_fails w_stale) = Inl (DeleteFailure ''pwa-test-cache-v0'') \<and>
   map fst (storage (snd (activate_listener env_delete_fails w_stale))) =
     [''pwa-test-cache-v0'', CACHE_NAME]"
proof -
  have h1: "''pwa-test-cache-v0'' \<in> set (map fst (storage w_stale))"
    by (simp add: w_stale_def)
  have h2: "''pwa-test-cache-v0'' \<noteq> CACHE_NAME"
    by (simp add: CACHE_NAME_def)
  have h3: "delete_fails env_delete_fails ''pwa-test-cache-v0''"
    by (simp add: env_delete_fails_def)
  have r: "fst (activate_listener env_delete_fails w_stale) = Inl (DeleteFailure ''pwa-test-cache-v0'')"
    by (simp add: activate_listener_def promise_defs caches_keys_def caches_delete_def scenario_defs)
  from activate_delete_failure_rejects [OF h1 h2 h3] h1 h2 h3 r show ?thesis
    by (simp add: w_stale_def env_delete_fails_def CACHE_NAME_def)
qed

text \<open>
  The claim as stated fails where the platform cannot delete the namespace of the
  previous version: the activate promise is rejected, and the trace holds the three
  messages written before the deletions settled, with no message about the failure
  and no \<open>ClientsClaim\<close>. The other stale namespace is gone.
\<close>

theorem activate_delete_failure_not_logged:
  "delete_fails env_delete_fails ''pwa-test-cache-v0'' \<and>
   activate_listener env_delete_fails w_stale =
     (Inl (DeleteFailure ''pwa-test-cache-v0''),
      \<lparr>storage =
         [(''pwa-test-cache-v0'', [(''/index.html'', page ''old'')]),
          (CACHE_NAME, [(''/index.html'', page ''new'')])],
       trace =
         [Log LActivating, Log (LDeleteOld ''pwa-test-cache-v0''),
          Log (LDeleteOld ''other-cache'')]\<rparr>)"
  by (simp add: activate_listener_def promise_defs caches_keys_def caches_delete_def
      scenario_defs)

subsection \<open>The message listener\<close>

lemma get_prop_defined:
  "data \<noteq> JUndefined \<Longrightarrow> data \<noteq> JNull \<Longrightarrow> \<exists>t. get_prop data p = Inr t"
  by (cases data) simp_all

lemma message_listener_defined_data:
  assumes "data \<noteq> JUndefined" and "data \<noteq> JNull"
  shows "fst (message_listener data w) = Inr ()"
    and "SkipWaiting \<in> set (trace (snd (message_listener data w))) \<longleftrightarrow>
         SkipWaiting \<in> set (trace w) \<or> get_prop data ''type'' = Inr (JStr ''SKIP_WAITING'')"
proof -
  from assms obtain t where t: "get_prop data ''type'' = Inr t"
    using get_prop_defined by blast
  show "fst (message_listener data w) = Inr ()"
    by (simp add: message_listener_def t promise_defs)
  show "SkipWaiting \<in> set (trace (snd (message_listener data w))) \<longleftrightarrow>
         SkipWaiting \<in> set (trace w) \<or> get_prop data ''type'' = Inr (JStr ''SKIP_WAITING'')"
  proof (cases "truthy data")
    case True
    then show ?thesis
      by (simp add: message_listener_def t promise_defs)
  next
    case False
    with assms have "t = JUndefined"
      using t by (cases data) simp_all
    with False show ?thesis
      by (simp add: message_listener_def t promise_defs)
  qed
qed

text \<open>
  Claim C10: the message listener completes without throwing for every message,
  also when the data is null or undefined or has no type field, and calls skipWaiting
  exactly when the data has type 'SKIP\_WAITING'.

  For every data value other than null and undefined this holds
  (\<open>message_listener_defined_data\<close>). At null or undefined data the listener throws a
  TypeError in its first statement, which reads \<^verbatim>\<open>event.data.type\<close> for the log
  message, before anything is logged; the guard \<^verbatim>\<open>event.data && ...\<close> of the second
  statement is never reached.
\<close>

theorem message_listener_null_data_throws:
  "message_listener JNull w = (Inl TypeError, w) \<and>
   message_listener JUndefined w = (Inl TypeError, w)"
  by (simp add: message_listener_def)

end
